theory Spec2Isabelle
  imports Complex_Main "HOL-Library.Sublist"
begin

section \<open>Data model\<close>

text \<open>
  The two scripts \<^verbatim>\<open>sync.py\<close> and \<^verbatim>\<open>asynk.py\<close> share their constants and most of
  their functions. Python \<^verbatim>\<open>bytes\<close> and \<^verbatim>\<open>str\<close> values are both modelled as
  \<^typ>\<open>string\<close> (a list of 8-bit characters); \<^verbatim>\<open>.decode()\<close> is the identity, which is
  exact for ASCII index documents.
\<close>

definition BASE_URL :: string where
  "BASE_URL = ''https://opendata.dwd.de/weather/nwp/icon-d2/grib/12/tot_prec/''"

definition CACHE_DIR :: string where
  "CACHE_DIR = ''.cache''"

definition EMPY_VALUE :: real where
  "EMPY_VALUE = - 100500"

definition MODEL :: string where
  "MODEL = ''icon_d2''"

definition MULT :: real where
  "MULT = 1000000"

text \<open>
  A grid cell is a float that is either NaN (missing data) or a number. Numbers are
  modelled as reals: the rounding and the infinities of 32-bit floats are not modelled.
  A grid is the list of its rows.
\<close>

datatype cell = NaN | Val real

type_synonym grid = "cell list list"

text \<open>
  The \<^verbatim>\<open>DataArray\<close> that \<^verbatim>\<open>get_dataset\<close> returns: the cell values, the six GRIB
  attributes read by \<^verbatim>\<open>get_header\<close>, and the two coordinates read by \<^verbatim>\<open>get_time\<close>
  (nanoseconds).
\<close>

record data_array =
  vals :: grid
  GRIB_latitudeOfFirstGridPointInDegrees :: real
  GRIB_latitudeOfLastGridPointInDegrees :: real
  GRIB_longitudeOfFirstGridPointInDegrees :: real
  GRIB_longitudeOfLastGridPointInDegrees :: real
  GRIB_iDirectionIncrementInDegrees :: real
  GRIB_jDirectionIncrementInDegrees :: real
  time :: int
  step :: int

text \<open>
  What \<^verbatim>\<open>xr.load_dataset\<close> decodes: the variable \<^verbatim>\<open>tp\<close> either has a leading
  \<^verbatim>\<open>step\<close> dimension (one array per step) or is a single array.
\<close>

datatype xr_dataset = With_step "data_array list" | Without_step data_array

text \<open>Python exceptions that the modelled code can raise.\<close>

datatype exn =
    AttributeError
  | TypeError
  | IndexError
  | StructError
  | FileNotFoundError
  | OSError
  | DecodeError

text \<open>The outcome of one HTTP GET: a response with status code and body, or a transport error.\<close>

datatype response = Response int string | TransportError

datatype byteorder = Little | Big

text \<open>
  The environment: everything the scripts obtain from outside.
  \<^item> \<open>respond k url\<close> is the outcome of the GET of \<open>url\<close> issued after \<open>k\<close> earlier GETs;
  \<^item> \<open>decompress\<close> is \<^verbatim>\<open>bz2.decompress\<close>;
  \<^item> \<open>load_dataset\<close> is \<^verbatim>\<open>xr.load_dataset(_, engine="cfgrib")\<close> as a function of the
    file's content;
  \<^item> \<open>time_label\<close> formats the valid time (nanoseconds) as \<^verbatim>\<open>get_time\<close> does;
  \<^item> \<open>pack_f\<close> is \<^verbatim>\<open>struct.pack('f', _)\<close>, and \<open>native\<close> the byte order of the machine.
\<close>

record env =
  respond :: "nat \<Rightarrow> string \<Rightarrow> response"
  decompress :: "string \<Rightarrow> exn + string"
  load_dataset :: "string \<Rightarrow> exn + xr_dataset"
  time_label :: "int \<Rightarrow> string"
  pack_f :: "cell \<Rightarrow> string"
  native :: byteorder

text \<open>
  The state the scripts change: the GETs issued so far (oldest first), the seconds spent
  in \<^verbatim>\<open>sleep\<close>, the files on disk, and the calls of \<^verbatim>\<open>write_data\<close> so far (path,
  header and grid, oldest first). Directories are not represented, and a file operation
  never fails.
\<close>

record world =
  gets :: "string list"
  slept :: nat
  files :: "string \<rightharpoonup> string"
  written :: "(string \<times> string \<times> grid) list"

section \<open>Fetching\<close>

text \<open>
  \<^verbatim>\<open>get_content\<close> (both scripts) and \<^verbatim>\<open>get_content_async\<close>: the loop
  \<^verbatim>\<open>while content is None and attempts < 10\<close>. An attempt issues one GET; a status other
  than 200 fails the \<^verbatim>\<open>assert\<close>, and every exception is caught, followed by
  \<^verbatim>\<open>sleep(2)\<close>. The function returns \<^verbatim>\<open>content\<close>, which is still \<^verbatim>\<open>None\<close> when no
  attempt succeeded; it never raises.
\<close>

function get_content_loop :: "env \<Rightarrow> string \<Rightarrow> nat \<Rightarrow> world \<Rightarrow> string option \<times> world" where
  "get_content_loop e path attempts w =
     (if attempts < 10 then
        (let w1 = w\<lparr>gets := gets w @ [path]\<rparr> in
         case respond e (length (gets w)) path of
           Response status_code content \<Rightarrow>
             if status_code = 200 then (Some content, w1)
             else get_content_loop e path (attempts + 1) (w1\<lparr>slept := slept w1 + 2\<rparr>)
         | TransportError \<Rightarrow>
             get_content_loop e path (attempts + 1) (w1\<lparr>slept := slept w1 + 2\<rparr>))
      else (None, w))"
  by pat_completeness auto
termination
  by (relation "measure (\<lambda>(e, path, attempts, w). 10 - attempts)") auto

declare get_content_loop.simps [simp del]

definition get_content :: "env \<Rightarrow> string \<Rightarrow> world \<Rightarrow> (exn + string option) \<times> world" where
  "get_content e path w = (case get_content_loop e path 0 w of (content, w') \<Rightarrow> (Inr content, w'))"

definition get_content_async :: "env \<Rightarrow> string \<Rightarrow> world \<Rightarrow> (exn + string option) \<times> world" where
  "get_content_async e path w = (case get_content_loop e path 0 w of (content, w') \<Rightarrow> (Inr content, w'))"

section \<open>The cache\<close>

text \<open>\<^verbatim>\<open>bz2filename[:-4]\<close> drops the last four characters, whatever they are.\<close>

definition get_filename :: "string \<Rightarrow> string" where
  "get_filename bz2filename = CACHE_DIR @ ''/'' @ take (length bz2filename - 4) bz2filename"

text \<open>
  \<^verbatim>\<open>open(filename, "wb")\<close> creates the file empty (or truncates it); \<^verbatim>\<open>f.write\<close>
  appends to it.
\<close>

definition open_wb :: "string \<Rightarrow> world \<Rightarrow> world" where
  "open_wb filename w = w\<lparr>files := (files w)(filename \<mapsto> [])\<rparr>"

definition f_write :: "string \<Rightarrow> string \<Rightarrow> world \<Rightarrow> world" where
  "f_write filename data w =
     w\<lparr>files := (files w)(filename \<mapsto> (case files w filename of None \<Rightarrow> [] | Some old \<Rightarrow> old) @ data)\<rparr>"

text \<open>
  The body of \<^verbatim>\<open>if not Path(filename).exists()\<close> in both scripts: fetch, decompress
  (a \<^verbatim>\<open>TypeError\<close> when the fetch returned \<^verbatim>\<open>None\<close>), write.
\<close>

definition fetch_into_cache ::
  "(env \<Rightarrow> string \<Rightarrow> world \<Rightarrow> (exn + string option) \<times> world) \<Rightarrow>
   env \<Rightarrow> string \<Rightarrow> string \<Rightarrow> world \<Rightarrow> (exn + unit) \<times> world" where
  "fetch_into_cache fetch e bz2filename filename w =
     (case fetch e (BASE_URL @ bz2filename) w of
        (Inl x, w1) \<Rightarrow> (Inl x, w1)
      | (Inr None, w1) \<Rightarrow> (Inl TypeError, w1)
      | (Inr (Some content), w1) \<Rightarrow>
          (case decompress e content of
             Inl x \<Rightarrow> (Inl x, w1)
           | Inr data \<Rightarrow> (Inr (), f_write filename data (open_wb filename w1))))"


text \<open>\<^verbatim>\<open>xr.load_dataset(filename, engine="cfgrib")\<close> on the file at \<open>filename\<close>.\<close>

definition read_dataset :: "env \<Rightarrow> string \<Rightarrow> world \<Rightarrow> exn + xr_dataset" where
  "read_dataset e filename w =
     (case files w filename of
        None \<Rightarrow> Inl FileNotFoundError
      | Some content \<Rightarrow> load_dataset e content)"

text \<open>
  The selection in \<^verbatim>\<open>asynk.py\<close>: \<^verbatim>\<open>dataset.tp[0]\<close> when there is a \<^verbatim>\<open>step\<close>
  dimension, \<^verbatim>\<open>dataset.tp\<close> otherwise. Indexing an empty dimension raises.
\<close>

definition asynk_tp :: "xr_dataset \<Rightarrow> exn + data_array" where
  "asynk_tp dataset =
     (case dataset of
        With_step [] \<Rightarrow> Inl IndexError
      | With_step (first # _) \<Rightarrow> Inr first
      | Without_step tp \<Rightarrow> Inr tp)"

text \<open>
  The selection in \<^verbatim>\<open>sync.py\<close>: \<^verbatim>\<open>result = dataset.tp[0]\<close> is evaluated first in
  every case (without a \<^verbatim>\<open>step\<close> dimension it indexes the first row, and raises when
  there is none), and \<^verbatim>\<open>dataset.tp\<close> replaces it when there is no \<^verbatim>\<open>step\<close> dimension.
\<close>

definition sync_tp :: "xr_dataset \<Rightarrow> exn + data_array" where
  "sync_tp dataset =
     (case dataset of
        With_step [] \<Rightarrow> Inl IndexError
      | With_step (first # _) \<Rightarrow> Inr first
      | Without_step tp \<Rightarrow> (if vals tp = [] then Inl IndexError else Inr tp))"

definition load_tp ::
  "(xr_dataset \<Rightarrow> exn + data_array) \<Rightarrow> env \<Rightarrow> string \<Rightarrow> world \<Rightarrow> exn + data_array" where
  "load_tp select e filename w =
     (case read_dataset e filename w of
        Inl x \<Rightarrow> Inl x
      | Inr dataset \<Rightarrow> select dataset)"

text \<open>\<^verbatim>\<open>get_dataset\<close> of \<^verbatim>\<open>asynk.py\<close>: reads the cache only.\<close>

definition asynk_get_dataset :: "env \<Rightarrow> string \<Rightarrow> world \<Rightarrow> exn + data_array" where
  "asynk_get_dataset e bz2filename w = load_tp asynk_tp e (get_filename bz2filename) w"

text \<open>\<^verbatim>\<open>get_dataset\<close> of \<^verbatim>\<open>sync.py\<close>: fills the cache when the file is missing, then loads.\<close>

definition sync_get_dataset :: "env \<Rightarrow> string \<Rightarrow> world \<Rightarrow> (exn + data_array) \<times> world" where
  "sync_get_dataset e bz2filename w =
     (let filename = CACHE_DIR @ ''/'' @ take (length bz2filename - 4) bz2filename in
      case (if files w filename = None then fetch_into_cache get_content e bz2filename filename w
            else (Inr (), w)) of
        (Inl x, w1) \<Rightarrow> (Inl x, w1)
      | (Inr _, w1) \<Rightarrow> (load_tp sync_tp e filename w1, w1))"

section \<open>Source discovery\<close>

text \<open>
  \<^verbatim>\<open>bytes.split(sep)\<close>: the pieces between the occurrences of \<open>sep\<close>, found from left
  to right without overlap. Python raises \<^verbatim>\<open>ValueError\<close> on an empty separator; every
  call below passes a literal one, and the model returns the whole string there.
\<close>

function split :: "string \<Rightarrow> string \<Rightarrow> string list" where
  "split sep [] = [[]]"
| "split sep (c # cs) =
     (if sep \<noteq> [] \<and> prefix sep (c # cs) then [] # split sep (drop (length sep) (c # cs))
      else (case split sep cs of
              [] \<Rightarrow> [[c]]
            | piece # pieces \<Rightarrow> (c # piece) # pieces))"
  by pat_completeness auto
termination
  by (relation "measure (\<lambda>(sep, s). length s)") auto

text \<open>\<^verbatim>\<open>sub in s\<close> on bytes: \<open>sub\<close> occurs in \<open>s\<close> as a contiguous block.\<close>

fun contains :: "string \<Rightarrow> string \<Rightarrow> bool" where
  "contains sub [] = (sub = [])"
| "contains sub (c # cs) = (prefix sub (c # cs) \<or> contains sub cs)"

definition HREF :: string where
  "HREF = [CHR ''h'', CHR ''r'', CHR ''e'', CHR ''f'', CHR ''='', CHR 0x22]"

definition CLOSE :: string where
  "CLOSE = [CHR 0x22, CHR ''>'']"

definition NEWLINE :: string where
  "NEWLINE = [CHR 0x0A]"

text \<open>
  The \<^verbatim>\<open>for line in ...\<close> loop of \<^verbatim>\<open>get_queue_of_sorces\<close>; the entries are appended
  to \<^verbatim>\<open>result\<close> in the order of the lines.
\<close>

fun scan_lines :: "string list \<Rightarrow> string list" where
  "scan_lines [] = []"
| "scan_lines (line # lines) =
     (let items = split HREF (split CLOSE line ! 0) in
      if length items \<noteq> 2 then scan_lines lines
      else if contains ''lat-lon'' (items ! 1) then (items ! 1) # scan_lines lines
      else scan_lines lines)"

text \<open>
  \<^verbatim>\<open>get_queue_of_sorces\<close>: \<^verbatim>\<open>content.split\<close> raises \<^verbatim>\<open>AttributeError\<close> when
  \<^verbatim>\<open>get_content\<close> returned \<^verbatim>\<open>None\<close>.
\<close>

definition get_queue_of_sorces :: "env \<Rightarrow> world \<Rightarrow> (exn + string list) \<times> world" where
  "get_queue_of_sorces e w =
     (case get_content e BASE_URL w of
        (Inl x, w1) \<Rightarrow> (Inl x, w1)
      | (Inr None, w1) \<Rightarrow> (Inl AttributeError, w1)
      | (Inr (Some content), w1) \<Rightarrow> (Inr (scan_lines (split NEWLINE content)), w1))"

section \<open>Header\<close>

text \<open>Python's \<^verbatim>\<open>int(x)\<close> on a float truncates towards zero.\<close>

definition py_int :: "real \<Rightarrow> int" where
  "py_int x = (if 0 \<le> x then \<lfloor>x\<rfloor> else \<lceil>x\<rceil>)"

definition normalize_tuple :: "real list \<Rightarrow> int list" where
  "normalize_tuple args = map (\<lambda>item. py_int (item * MULT)) args"

text \<open>
  \<^verbatim>\<open>struct.pack('i', v)\<close>: four bytes in two's complement, in the machine's byte order;
  \<^verbatim>\<open>struct.error\<close> when \<open>v\<close> is not a signed 32-bit value.
\<close>

definition pack_i :: "byteorder \<Rightarrow> int \<Rightarrow> exn + string" where
  "pack_i bo v =
     (if - (2 ^ 31) \<le> v \<and> v < 2 ^ 31 then
        (let le = map (\<lambda>k. char_of (v div 256 ^ k)) [0, 1, 2, 3 :: nat] in
         Inr (case bo of Little \<Rightarrow> le | Big \<Rightarrow> rev le))
      else Inl StructError)"

text \<open>\<^verbatim>\<open>struct.pack('i' * n, *vs)\<close> for a list of \<open>n\<close> values.\<close>

fun pack_is :: "byteorder \<Rightarrow> int list \<Rightarrow> exn + string" where
  "pack_is bo [] = Inr []"
| "pack_is bo (v # vs) =
     (case pack_i bo v of
        Inl x \<Rightarrow> Inl x
      | Inr b \<Rightarrow> (case pack_is bo vs of Inl x \<Rightarrow> Inl x | Inr bs \<Rightarrow> Inr (b @ bs)))"


text \<open>
  \<^verbatim>\<open>get_header\<close>: the constant \<^verbatim>\<open>1\<close> is the seventh argument of
  \<^verbatim>\<open>normalize_tuple\<close>, so it is scaled like the six attributes.
\<close>

definition header_fields :: "data_array \<Rightarrow> int list" where
  "header_fields dataset =
     normalize_tuple
       [GRIB_latitudeOfFirstGridPointInDegrees dataset,
        GRIB_latitudeOfLastGridPointInDegrees dataset,
        GRIB_longitudeOfFirstGridPointInDegrees dataset,
        GRIB_longitudeOfLastGridPointInDegrees dataset,
        GRIB_iDirectionIncrementInDegrees dataset,
        GRIB_jDirectionIncrementInDegrees dataset,
        1]"

definition get_header :: "env \<Rightarrow> data_array \<Rightarrow> exn + string" where
  "get_header e dataset = pack_is (native e) (header_fields dataset)"

text \<open>\<^verbatim>\<open>get_time\<close>: the label of the valid time \<^verbatim>\<open>time + step\<close>.\<close>

definition get_time :: "env \<Rightarrow> data_array \<Rightarrow> string" where
  "get_time e dataset = time_label e (time dataset + step dataset)"

section \<open>Delta\<close>

text \<open>Float subtraction: NaN when either operand is NaN.\<close>

fun cell_sub :: "cell \<Rightarrow> cell \<Rightarrow> cell" where
  "cell_sub (Val a) (Val b) = Val (a - b)"
| "cell_sub _ _ = NaN"

text \<open>
  Cellwise subtraction of two arrays. The scripts only subtract grids of one shape (all
  files are on the same latitude-longitude grid); for other shapes the model keeps the
  common cells.
\<close>

definition grid_sub :: "grid \<Rightarrow> grid \<Rightarrow> grid" where
  "grid_sub a b = map2 (map2 cell_sub) a b"

text \<open>\<^verbatim>\<open>fillna(value)\<close>: every NaN cell becomes \<open>value\<close>.\<close>

definition fillna :: "real \<Rightarrow> grid \<Rightarrow> grid" where
  "fillna v g = map (map (\<lambda>c. case c of NaN \<Rightarrow> Val v | Val x \<Rightarrow> Val x)) g"

text \<open>
  \<^verbatim>\<open>get_values\<close> of \<^verbatim>\<open>sync.py\<close>. \<^verbatim>\<open>result\<close> and \<^verbatim>\<open>dataset\<close> name one object, and
  \<^verbatim>\<open>result -= prev_values\<close> subtracts in place, so the second component returned is the
  difference as well; \<^verbatim>\<open>fillna\<close> returns a new array.
\<close>

definition get_values :: "grid \<Rightarrow> grid option \<Rightarrow> grid \<times> grid" where
  "get_values dataset prev_values =
     (let result = (case prev_values of None \<Rightarrow> dataset | Some p \<Rightarrow> grid_sub dataset p)
      in (fillna EMPY_VALUE result, result))"

text \<open>The expression \<^verbatim>\<open>(dataset - prev_dataset).fillna(EMPY_VALUE)\<close> of \<^verbatim>\<open>process\<close> in \<^verbatim>\<open>asynk.py\<close>.\<close>

definition asynk_delta :: "grid \<Rightarrow> grid \<Rightarrow> grid" where
  "asynk_delta dataset prev_dataset = fillna EMPY_VALUE (grid_sub dataset prev_dataset)"

section \<open>Writing\<close>

text \<open>\<^verbatim>\<open>struct.pack('f' * len(line), *line)\<close> for one row.\<close>

definition pack_row :: "env \<Rightarrow> cell list \<Rightarrow> string" where
  "pack_row e line = concat (map (pack_f e) line)"

definition output_name :: "string \<Rightarrow> string" where
  "output_name path = path @ ''/PRATE.wgf4''"

text \<open>\<^verbatim>\<open>write_data\<close> of \<^verbatim>\<open>sync.py\<close>: the header, the sentinel, then one write per row.\<close>

fun write_rows :: "env \<Rightarrow> string \<Rightarrow> grid \<Rightarrow> world \<Rightarrow> world" where
  "write_rows e name [] w = w"
| "write_rows e name (line # lines) w = write_rows e name lines (f_write name (pack_row e line) w)"

definition sync_write_data :: "env \<Rightarrow> string \<Rightarrow> string \<Rightarrow> grid \<Rightarrow> world \<Rightarrow> world" where
  "sync_write_data e path header values w =
     (let name = output_name path;
          w1 = open_wb name (w\<lparr>written := written w @ [(path, header, values)]\<rparr>);
          w2 = f_write name header w1;
          w3 = f_write name (pack_f e (Val EMPY_VALUE)) w2
      in write_rows e name values w3)"

text \<open>\<^verbatim>\<open>write_data\<close> of \<^verbatim>\<open>asynk.py\<close>: the bytes are concatenated first and written at once.\<close>

fun append_rows :: "env \<Rightarrow> string \<Rightarrow> grid \<Rightarrow> string" where
  "append_rows e v [] = v"
| "append_rows e v (line # lines) = append_rows e (v @ pack_row e line) lines"

definition asynk_write_data :: "env \<Rightarrow> string \<Rightarrow> string \<Rightarrow> grid \<Rightarrow> world \<Rightarrow> world" where
  "asynk_write_data e path header values w =
     (let v = append_rows e (header @ pack_f e (Val EMPY_VALUE)) values;
          name = output_name path
      in f_write name v (open_wb name (w\<lparr>written := written w @ [(path, header, values)]\<rparr>)))"

section \<open>Processing\<close>

text \<open>Python list indexing: a negative index counts from the end, out of range raises.\<close>

definition get_item :: "'a list \<Rightarrow> int \<Rightarrow> exn + 'a" where
  "get_item xs i =
     (if 0 \<le> i \<and> i < int (length xs) then Inr (xs ! nat i)
      else if i < 0 \<and> - int (length xs) \<le> i then Inr (xs ! nat (int (length xs) + i))
      else Inl IndexError)"

definition output_path :: "env \<Rightarrow> data_array \<Rightarrow> string" where
  "output_path e dataset = ''./'' @ MODEL @ ''/'' @ get_time e dataset"

text \<open>
  \<^verbatim>\<open>process\<close> of \<^verbatim>\<open>asynk.py\<close>: loads the entry at \<open>index - 1\<close> and the entry at
  \<open>index\<close> from the cache and writes their difference. An exception leaves the function.
\<close>

definition process :: "env \<Rightarrow> string list \<Rightarrow> int \<Rightarrow> world \<Rightarrow> (exn + unit) \<times> world" where
  "process e filenames index w =
     (case get_item filenames index of
        Inl x \<Rightarrow> (Inl x, w)
      | Inr current \<Rightarrow>
     (case get_item filenames (index - 1) of
        Inl x \<Rightarrow> (Inl x, w)
      | Inr previous \<Rightarrow>
     (case asynk_get_dataset e previous w of
        Inl x \<Rightarrow> (Inl x, w)
      | Inr prev_dataset \<Rightarrow>
     (case asynk_get_dataset e current w of
        Inl x \<Rightarrow> (Inl x, w)
      | Inr dataset \<Rightarrow>
     (case get_header e dataset of
        Inl x \<Rightarrow> (Inl x, w)
      | Inr header \<Rightarrow>
          (Inr (), asynk_write_data e (output_path e dataset) header
                     (asynk_delta (vals dataset) (vals prev_dataset)) w))))))"

text \<open>
  The loop \<^verbatim>\<open>for i in range(1, len(filenames)): process(filenames, i)\<close> of \<^verbatim>\<open>main\<close> in
  \<^verbatim>\<open>asynk.py\<close>; there is no \<^verbatim>\<open>try\<close> around the call.
\<close>

fun process_each :: "env \<Rightarrow> string list \<Rightarrow> nat list \<Rightarrow> world \<Rightarrow> (exn + unit) \<times> world" where
  "process_each e filenames [] w = (Inr (), w)"
| "process_each e filenames (i # rest) w =
     (case process e filenames (int i) w of
        (Inl x, w1) \<Rightarrow> (Inl x, w1)
      | (Inr _, w1) \<Rightarrow> process_each e filenames rest w1)"

definition asynk_processing :: "env \<Rightarrow> string list \<Rightarrow> world \<Rightarrow> (exn + unit) \<times> world" where
  "asynk_processing e filenames w = process_each e filenames [1 ..< length filenames] w"

text \<open>
  One pass through the body of \<^verbatim>\<open>while filenames:\<close> in \<^verbatim>\<open>main\<close> of \<^verbatim>\<open>sync.py\<close>, on
  the queue, the carried \<^verbatim>\<open>prev_values\<close> and the world. The \<^verbatim>\<open>except\<close> branch only
  prints: the queue and \<^verbatim>\<open>prev_values\<close> stay as they are.
\<close>

fun loop_body :: "env \<Rightarrow> string list \<times> grid \<times> world \<Rightarrow> string list \<times> grid \<times> world" where
  "loop_body e ([], prev_values, w) = ([], prev_values, w)"
| "loop_body e (current # rest, prev_values, w) =
     (case sync_get_dataset e current w of
        (Inl x, w1) \<Rightarrow> (current # rest, prev_values, w1)
      | (Inr dataset, w1) \<Rightarrow>
          (case get_header e dataset of
             Inl x \<Rightarrow> (current # rest, prev_values, w1)
           | Inr header \<Rightarrow>
               (case get_values (vals dataset) (Some prev_values) of
                  (result, carried) \<Rightarrow>
                    (rest, carried, sync_write_data e (output_path e dataset) header result w1))))"

text \<open>
  The \<^verbatim>\<open>while\<close> loop, with a bound on the number of passes: \<open>None\<close> when the queue is
  not empty after \<open>n\<close> passes.
\<close>

fun main_loop :: "env \<Rightarrow> nat \<Rightarrow> string list \<times> grid \<times> world \<Rightarrow> (grid \<times> world) option" where
  "main_loop e n ([], prev_values, w) = Some (prev_values, w)"
| "main_loop e 0 (current # rest, prev_values, w) = None"
| "main_loop e (Suc n) (current # rest, prev_values, w) =
     main_loop e n (loop_body e (current # rest, prev_values, w))"

text \<open>
  \<^verbatim>\<open>main\<close> of \<^verbatim>\<open>sync.py\<close>: the catalog, the first entry as \<^verbatim>\<open>prev_values\<close> (the first
  component of \<^verbatim>\<open>get_values\<close>), then the loop. \<^verbatim>\<open>filenames[0]\<close> raises on an empty queue.
\<close>

definition sync_main :: "env \<Rightarrow> nat \<Rightarrow> world \<Rightarrow> ((exn + unit) \<times> world) option" where
  "sync_main e n w =
     (case get_queue_of_sorces e w of
        (Inl x, w1) \<Rightarrow> Some (Inl x, w1)
      | (Inr [], w1) \<Rightarrow> Some (Inl IndexError, w1)
      | (Inr (first # rest), w1) \<Rightarrow>
          (case sync_get_dataset e first w1 of
             (Inl x, w2) \<Rightarrow> Some (Inl x, w2)
           | (Inr dataset, w2) \<Rightarrow>
               (case main_loop e n (rest, fst (get_values (vals dataset) None), w2) of
                  None \<Rightarrow> None
                | Some (prev_values, w3) \<Rightarrow> Some (Inr (), w3))))"

section \<open>Example values\<close>

text \<open>Concrete inputs on which the theorems below are instantiated.\<close>

definition example_array :: data_array where
  "example_array =
     \<lparr>vals = [[Val 1, NaN], [Val 3, Val 4]],
      GRIB_latitudeOfFirstGridPointInDegrees = 47.5,
      GRIB_latitudeOfLastGridPointInDegrees = 55.5,
      GRIB_longitudeOfFirstGridPointInDegrees = 5.0,
      GRIB_longitudeOfLastGridPointInDegrees = 17.0,
      GRIB_iDirectionIncrementInDegrees = 0.02,
      GRIB_jDirectionIncrementInDegrees = 0.02,
      time = 0, step = 0\<rparr>"

definition example_env :: env where
  "example_env =
     \<lparr>respond = (\<lambda>k url. TransportError),
      decompress = (\<lambda>content. Inr content),
      load_dataset = (\<lambda>content. Inr (Without_step example_array)),
      time_label = (\<lambda>t. ''t''),
      pack_f = (\<lambda>c. ''0000''),
      native = Little\<rparr>"


definition empty_world :: world where
  "empty_world = \<lparr>gets = [], slept = 0, files = Map.empty, written = []\<rparr>"

text \<open>An attempt fails on a transport error and on every status other than 200.\<close>

definition failed :: "response \<Rightarrow> bool" where
  "failed r = (case r of Response status_code content \<Rightarrow> status_code \<noteq> 200 | TransportError \<Rightarrow> True)"

definition third_time_env :: env where
  "third_time_env = example_env\<lparr>respond := (\<lambda>k url. if k = 2 then Response 200 ''body'' else Response 503 [])\<rparr>"







text \<open>
  A run over three catalog entries whose grids have the single cells 1, 3 and 6, and the
  grids of the \<^verbatim>\<open>write_data\<close> calls of a world, with their paths.
\<close>

definition series_index :: string where
  "series_index =
     ''<a '' @ HREF @ ''lat-lon_0.bz2'' @ CLOSE @ ''0</a>'' @ NEWLINE @
     ''<a '' @ HREF @ ''lat-lon_1.bz2'' @ CLOSE @ ''1</a>'' @ NEWLINE @
     ''<a '' @ HREF @ ''lat-lon_2.bz2'' @ CLOSE @ ''2</a>'' @ NEWLINE"

definition series_array :: "string \<Rightarrow> data_array" where
  "series_array content =
     (if content = ''0'' then example_array\<lparr>vals := [[Val 1]], step := 0\<rparr>
      else if content = ''1'' then example_array\<lparr>vals := [[Val 3]], step := 1\<rparr>
      else example_array\<lparr>vals := [[Val 6]], step := 2\<rparr>)"

definition series_env :: env where
  "series_env =
     \<lparr>respond = (\<lambda>k url.
        if url = BASE_URL then Response 200 series_index
        else if url = BASE_URL @ ''lat-lon_0.bz2'' then Response 200 ''0''
        else if url = BASE_URL @ ''lat-lon_1.bz2'' then Response 200 ''1''
        else Response 200 ''2''),
      decompress = (\<lambda>content. Inr content),
      load_dataset = (\<lambda>content. Inr (Without_step (series_array content))),
      time_label = (\<lambda>t. if t = 0 then ''t0'' else if t = 1 then ''t1'' else ''t2''),
      pack_f = (\<lambda>c. ''0000''),
      native = Little\<rparr>"

definition series_names :: "string list" where
  "series_names = [''lat-lon_0.bz2'', ''lat-lon_1.bz2'', ''lat-lon_2.bz2'']"

definition series_world :: world where
  "series_world =
     empty_world\<lparr>files := [get_filename ''lat-lon_0.bz2'' \<mapsto> ''0'',
                            get_filename ''lat-lon_1.bz2'' \<mapsto> ''1'',
                            get_filename ''lat-lon_2.bz2'' \<mapsto> ''2'']\<rparr>"

definition emitted :: "world \<Rightarrow> (string \<times> grid) list" where
  "emitted w = map (\<lambda>(path, header, g). (path, g)) (written w)"










section \<open>Theorems\<close>

subsection \<open>Cache paths\<close>

text \<open>
  C9 (as amended). The cache path of an entry name is the name without its last four
  characters, under the cache directory. Two names that end in four characters each (the
  same four or not) get the same path exactly when they agree before those four
  characters: distinct names with one common four-character suffix, such as
  \<^verbatim>\<open>.bz2\<close>, get distinct paths.
\<close>

theorem get_filename_eq_iff:
  assumes "length s = 4" and "length t = 4"
  shows "(get_filename (p @ s) = get_filename (q @ t)) = (p = q)"
  using assms by (simp add: get_filename_def)

theorem get_filename_eq_iff_witness:
  "get_filename ''a.bz2'' \<noteq> get_filename ''b.bz2''"
  using get_filename_eq_iff [of "''.bz2''" "''.bz2''" "''a''" "''b''"] by simp

text \<open>
  C9 as stated fails: two distinct entry names, both with the projection marker, that
  differ only in their last four characters share one cache path.
\<close>

theorem get_filename_collision:
  "''icon_lat-lon_000.bz2'' \<noteq> ''icon_lat-lon_000.xz2'' \<and>
   get_filename ''icon_lat-lon_000.bz2'' = get_filename ''icon_lat-lon_000.xz2''"
  by (simp add: get_filename_def)

subsection \<open>Header\<close>

lemma pack_i_in_range:
  "- (2 ^ 31) \<le> v \<Longrightarrow> v < 2 ^ 31 \<Longrightarrow> \<exists>b. pack_i bo v = Inr b \<and> length b = 4"
  by (cases bo) (simp_all add: pack_i_def Let_def)

lemma pack_is_in_range:
  assumes "\<forall>v \<in> set vs. - (2 ^ 31) \<le> v \<and> v < 2 ^ 31"
  shows "\<exists>h. pack_is bo vs = Inr h \<and> length h = 4 * length vs \<and>
           (\<forall>k < length vs. pack_i bo (vs ! k) = Inr (take 4 (drop (4 * k) h)))"
  using assms
proof (induction vs)
  case Nil
  then show ?case by simp
next
  case (Cons v vs)
  then obtain b where b: "pack_i bo v = Inr b" "length b = 4"
    using pack_i_in_range [of v bo] by auto
  from Cons obtain h where h: "pack_is bo vs = Inr h" "length h = 4 * length vs"
    "\<forall>k < length vs. pack_i bo (vs ! k) = Inr (take 4 (drop (4 * k) h))"
    by auto
  have "pack_i bo ((v # vs) ! k) = Inr (take 4 (drop (4 * k) (b @ h)))" if "k < length (v # vs)" for k
  proof (cases k)
    case 0
    with b show ?thesis by simp
  next
    case (Suc m)
    with that h b show ?thesis by simp
  qed
  with b h show ?case by simp
qed

lemma pack_is_out_of_range:
  assumes "\<exists>v \<in> set vs. \<not> (- (2 ^ 31) \<le> v \<and> v < 2 ^ 31)"
  shows "pack_is bo vs = Inl StructError"
  using assms
proof (induction vs)
  case Nil
  then show ?case by simp
next
  case (Cons v vs)
  show ?case
  proof (cases "- (2 ^ 31) \<le> v \<and> v < 2 ^ 31")
    case True
    then obtain b where "pack_i bo v = Inr b" using pack_i_in_range [of v bo] by auto
    moreover from True Cons have "pack_is bo vs = Inl StructError" by auto
    ultimately show ?thesis by simp
  next
    case False
    then have "pack_i bo v = Inl StructError" by (auto simp: pack_i_def)
    then show ?thesis by simp
  qed
qed






lemma example_fields:
  "header_fields example_array = [47500000, 55500000, 5000000, 17000000, 20000, 20000, 1000000]"
  by (simp add: header_fields_def normalize_tuple_def MULT_def py_int_def example_array_def)




subsection \<open>Delta\<close>








lemma get_values_Some:
  "get_values dataset (Some p) = (fillna EMPY_VALUE (grid_sub dataset p), grid_sub dataset p)"
  by (simp add: get_values_def Let_def)

lemma get_values_None:
  "get_values dataset None = (fillna EMPY_VALUE dataset, dataset)"
  by (simp add: get_values_def Let_def)




subsection \<open>Output file\<close>

lemma pack_i_length: "pack_i bo v = Inr b \<Longrightarrow> length b = 4"
  by (auto simp: pack_i_def Let_def split: if_splits byteorder.splits)

lemma pack_is_length: "pack_is bo vs = Inr h \<Longrightarrow> length h = 4 * length vs"
proof (induction vs arbitrary: h)
  case Nil
  then show ?case by simp
next
  case (Cons v vs)
  then show ?case
    by (auto split: sum.splits dest: pack_i_length)
qed

lemma header_fields_length: "length (header_fields ds) = 7"
  by (simp add: header_fields_def normalize_tuple_def)

lemma get_header_length: "get_header e ds = Inr header \<Longrightarrow> length header = 28"
  using pack_is_length [of "native e" "header_fields ds" header]
  by (simp add: get_header_def header_fields_length)

lemma files_open_wb: "files (open_wb name w) = (files w)(name \<mapsto> [])"
  by (simp add: open_wb_def)

lemma files_f_write:
  "files (f_write name data w) =
     (files w)(name \<mapsto> (case files w name of None \<Rightarrow> [] | Some old \<Rightarrow> old) @ data)"
  by (simp add: f_write_def)

lemma files_write_rows:
  "files w name = Some old \<Longrightarrow>
   files (write_rows e name lines w) = (files w)(name \<mapsto> old @ concat (map (pack_row e) lines))"
proof (induction lines arbitrary: w old)
  case Nil
  then show ?case by (simp add: fun_upd_idem)
next
  case (Cons line lines)
  have "files (f_write name (pack_row e line) w) name = Some (old @ pack_row e line)"
    using Cons.prems by (simp add: files_f_write)
  from Cons.IH [OF this] Cons.prems show ?case
    by (auto simp: files_f_write fun_eq_iff)
qed

lemma append_rows_eq: "append_rows e v lines = v @ concat (map (pack_row e) lines)"
  by (induction lines arbitrary: v) simp_all

lemma files_sync_write_data:
  "files (sync_write_data e path header values w) =
     (files w)(output_name path \<mapsto>
        header @ pack_f e (Val EMPY_VALUE) @ concat (map (pack_row e) values))"
proof -
  let ?name = "output_name path"
  let ?w3 = "f_write ?name (pack_f e (Val EMPY_VALUE))
               (f_write ?name header (open_wb ?name (w\<lparr>written := written w @ [(path, header, values)]\<rparr>)))"
  have "files ?w3 ?name = Some (header @ pack_f e (Val EMPY_VALUE))"
    by (simp add: files_f_write files_open_wb)
  from files_write_rows [OF this, of e "values"] show ?thesis
    by (simp add: sync_write_data_def Let_def files_f_write files_open_wb)
qed

lemma files_asynk_write_data:
  "files (asynk_write_data e path header values w) =
     (files w)(output_name path \<mapsto>
        header @ pack_f e (Val EMPY_VALUE) @ concat (map (pack_row e) values))"
  by (simp add: asynk_write_data_def Let_def files_f_write files_open_wb append_rows_eq)

lemma payload_row_major:
  "concat (map (pack_row e) g) = concat (map (pack_f e) (concat g))"
  by (induction g) (simp_all add: pack_row_def)

lemma payload_length:
  assumes "\<forall>c. length (pack_f e c) = 4"
  shows "length (concat (map (pack_f e) cells)) = 4 * length cells"
  using assms by (induction cells) simp_all

lemma cells_count:
  assumes "\<forall>line \<in> set g. length line = cols"
  shows "length (concat g) = length g * cols"
  using assms by (induction g) simp_all

lemma example_header: "\<exists>h. get_header example_env example_array = Inr h"
proof -
  have "\<forall>v \<in> set (header_fields example_array). - (2 ^ 31) \<le> v \<and> v < 2 ^ 31"
    by (simp add: example_fields)
  from pack_is_in_range [OF this] show ?thesis
    by (auto simp: get_header_def)
qed

text \<open>
  C4. With a header returned by \<^verbatim>\<open>get_header\<close>, four bytes per packed float and a grid
  whose rows all have \<open>cols\<close> cells, \<^verbatim>\<open>write_data\<close> of either script leaves in
  \<^verbatim>\<open>PRATE.wgf4\<close> under the output path exactly: the 28 bytes of the header, the 4 bytes
  of the packed sentinel -100500.0, and the packed cells of the grid row after row, which
  is \<open>32 + 4 * rows * cols\<close> bytes.
\<close>

theorem wgf4_layout:
  assumes "get_header e ds = Inr header"
    and "\<forall>c. length (pack_f e c) = 4"
    and "\<forall>line \<in> set values. length line = cols"
  shows "\<exists>content.
           files (sync_write_data e path header values w) (path @ ''/PRATE.wgf4'') = Some content \<and>
           files (asynk_write_data e path header values w) (path @ ''/PRATE.wgf4'') = Some content \<and>
           length content = 32 + 4 * (length values * cols) \<and>
           take 28 content = header \<and>
           take 4 (drop 28 content) = pack_f e (Val (- 100500)) \<and>
           drop 32 content = concat (map (pack_f e) (concat values))"
proof -
  let ?content = "header @ pack_f e (Val EMPY_VALUE) @ concat (map (pack_f e) (concat values))"
  have h: "length header = 28" using assms(1) by (rule get_header_length)
  have s: "length (pack_f e (Val EMPY_VALUE)) = 4" using assms(2) by simp
  have p: "length (concat (map (pack_f e) (concat values))) = 4 * (length values * cols)"
    using payload_length [OF assms(2)] cells_count [OF assms(3)] by simp
  have 1: "files (sync_write_data e path header values w) (path @ ''/PRATE.wgf4'') = Some ?content"
    by (simp add: files_sync_write_data output_name_def payload_row_major)
  have 2: "files (asynk_write_data e path header values w) (path @ ''/PRATE.wgf4'') = Some ?content"
    by (simp add: files_asynk_write_data output_name_def payload_row_major)
  have 3: "length ?content = 32 + 4 * (length values * cols)"
    using h s p by simp
  have 4: "take 28 ?content = header" using h by simp
  have 5: "take 4 (drop 28 ?content) = pack_f e (Val (- 100500))"
    using h s by (simp add: EMPY_VALUE_def)
  have 6: "drop 32 ?content = concat (map (pack_f e) (concat values))"
    using h s by simp
  from 1 2 3 4 5 6 show ?thesis by blast
qed

theorem wgf4_layout_witness:
  "\<exists>header content.
     get_header example_env example_array = Inr header \<and>
     files (sync_write_data example_env ''./icon_d2/t'' header [[Val 1, Val 2], [Val 3, Val 4]] empty_world)
       ''./icon_d2/t/PRATE.wgf4'' = Some content \<and>
     files (asynk_write_data example_env ''./icon_d2/t'' header [[Val 1, Val 2], [Val 3, Val 4]] empty_world)
       ''./icon_d2/t/PRATE.wgf4'' = Some content \<and>
     length content = 48 \<and> take 28 content = header \<and> drop 32 content = ''0000000000000000''"
proof -
  obtain h where h: "get_header example_env example_array = Inr h"
    using example_header by blast
  have p: "\<forall>c. length (pack_f example_env c) = 4"
    by (simp add: example_env_def)
  have r: "\<forall>line \<in> set [[Val 1, Val 2], [Val 3, Val 4]]. length line = 2"
    by simp
  from wgf4_layout [OF h p r, of "''./icon_d2/t''" empty_world] h show ?thesis
    by (auto simp: example_env_def)
qed

subsection \<open>Fetching\<close>

lemma loop_step_failed:
  assumes "attempts < 10" and "failed (respond e (length (gets w)) path)"
  shows "get_content_loop e path attempts w =
           get_content_loop e path (attempts + 1) (w\<lparr>gets := gets w @ [path], slept := slept w + 2\<rparr>)"
  using assms
  by (simp add: get_content_loop.simps [of e path attempts w] failed_def Let_def
           split: response.splits)

lemma loop_step_ok:
  assumes "attempts < 10" and "respond e (length (gets w)) path = Response 200 body"
  shows "get_content_loop e path attempts w = (Some body, w\<lparr>gets := gets w @ [path]\<rparr>)"
  using assms
  by (simp add: get_content_loop.simps [of e path attempts w] Let_def)

lemma loop_exhausted:
  assumes "10 - attempts = n"
    and "\<forall>i < n. failed (respond e (length (gets w) + i) path)"
  shows "get_content_loop e path attempts w =
           (None, w\<lparr>gets := gets w @ replicate n path, slept := slept w + 2 * n\<rparr>)"
  using assms
proof (induction n arbitrary: attempts w)
  case 0
  then show ?case by (simp add: get_content_loop.simps [of e path attempts w])
next
  case (Suc n)
  let ?w' = "w\<lparr>gets := gets w @ [path], slept := slept w + 2\<rparr>"
  from Suc.prems have lt: "attempts < 10" by simp
  from Suc.prems have f0: "failed (respond e (length (gets w)) path)" by force
  have n: "10 - (attempts + 1) = n" using Suc.prems by simp
  have rest: "\<forall>i < n. failed (respond e (length (gets ?w') + i) path)"
    using Suc.prems(2) by auto
  from Suc.IH [OF n rest] loop_step_failed [OF lt f0]
  show ?case by (simp add: replicate_append_same)
qed

lemma loop_first_ok:
  assumes "attempts + k < 10"
    and "\<forall>i < k. failed (respond e (length (gets w) + i) path)"
    and "respond e (length (gets w) + k) path = Response 200 body"
  shows "get_content_loop e path attempts w =
           (Some body, w\<lparr>gets := gets w @ replicate (Suc k) path, slept := slept w + 2 * k\<rparr>)"
  using assms
proof (induction k arbitrary: attempts w)
  case 0
  then show ?case using loop_step_ok [of attempts e w path body] by simp
next
  case (Suc k)
  let ?w' = "w\<lparr>gets := gets w @ [path], slept := slept w + 2\<rparr>"
  from Suc.prems have lt: "attempts < 10" by simp
  from Suc.prems have f0: "failed (respond e (length (gets w)) path)" by force
  have b: "(attempts + 1) + k < 10" using Suc.prems by simp
  have rest: "\<forall>i < k. failed (respond e (length (gets ?w') + i) path)"
    using Suc.prems(2) by auto
  have ok: "respond e (length (gets ?w') + k) path = Response 200 body"
    using Suc.prems(3) by simp
  from Suc.IH [OF b rest ok] loop_step_failed [OF lt f0]
  show ?case by (simp add: replicate_append_same)
qed

text \<open>
  C5 (as amended). \<^verbatim>\<open>get_content\<close> issues one GET of the URL per attempt. When the
  first ten responses all fail, it has issued exactly ten GETs, slept 2 seconds after
  each of them (20 seconds), and returns \<^verbatim>\<open>None\<close>: it raises nothing. When the attempt
  number \<open>k + 1 \<le> 10\<close> is the first answered with status 200, it has issued \<open>k + 1\<close>
  GETs, slept \<open>2 * k\<close> seconds, and returns the body. \<^verbatim>\<open>get_content_async\<close> does the
  same.
\<close>

theorem get_content_attempts:
  "((\<forall>i < 10. failed (respond e (length (gets w) + i) path)) \<longrightarrow>
      get_content e path w =
        (Inr None, w\<lparr>gets := gets w @ replicate 10 path, slept := slept w + 20\<rparr>)) \<and>
   (k < 10 \<and> (\<forall>i < k. failed (respond e (length (gets w) + i) path)) \<and>
      respond e (length (gets w) + k) path = Response 200 body \<longrightarrow>
      get_content e path w =
        (Inr (Some body), w\<lparr>gets := gets w @ replicate (Suc k) path, slept := slept w + 2 * k\<rparr>)) \<and>
   get_content_async e path w = get_content e path w"
proof -
  have 1: "get_content e path w =
        (Inr None, w\<lparr>gets := gets w @ replicate 10 path, slept := slept w + 20\<rparr>)"
    if "\<forall>i < 10. failed (respond e (length (gets w) + i) path)"
    using loop_exhausted [of 0 10 e w path] that by (simp add: get_content_def)
  have 2: "get_content e path w =
        (Inr (Some body), w\<lparr>gets := gets w @ replicate (Suc k) path, slept := slept w + 2 * k\<rparr>)"
    if "k < 10" "\<forall>i < k. failed (respond e (length (gets w) + i) path)"
       "respond e (length (gets w) + k) path = Response 200 body"
    using loop_first_ok [of 0 k e w path body] that by (simp add: get_content_def)
  have 3: "get_content_async e path w = get_content e path w"
    by (simp add: get_content_async_def get_content_def)
  from 1 2 3 show ?thesis by blast
qed

theorem get_content_attempts_witness:
  "get_content example_env ''u'' empty_world =
     (Inr None, empty_world\<lparr>gets := replicate 10 ''u'', slept := 20\<rparr>) \<and>
   get_content third_time_env ''u'' empty_world =
     (Inr (Some ''body''), empty_world\<lparr>gets := replicate 3 ''u'', slept := 4\<rparr>)"
proof -
  have a: "\<forall>i < 10. failed (respond example_env (length (gets empty_world) + i) ''u'')"
    by (simp add: example_env_def failed_def)
  have b: "(2::nat) < 10 \<and> (\<forall>i < 2. failed (respond third_time_env (length (gets empty_world) + i) ''u'')) \<and>
      respond third_time_env (length (gets empty_world) + 2) ''u'' = Response 200 ''body''"
    by (simp add: third_time_env_def failed_def empty_world_def)
  from get_content_attempts [of example_env empty_world "''u''" 0 "[]"] a
       get_content_attempts [of third_time_env empty_world "''u''" 2 "''body''"] b
  show ?thesis by (simp add: empty_world_def)
qed

text \<open>
  C5 as stated fails in its last part: after ten failed attempts the function returns
  normally, with \<^verbatim>\<open>None\<close>.
\<close>

theorem exhausted_returns_None:
  "fst (get_content example_env ''u'' empty_world) = Inr None"
  using loop_exhausted [of 0 10 example_env empty_world "''u''"]
  by (simp add: get_content_def example_env_def failed_def)

subsection \<open>Cache\<close>

lemma sync_get_dataset_unfold:
  "sync_get_dataset e name w =
     (case (if files w (get_filename name) = None
            then fetch_into_cache get_content e name (get_filename name) w
            else (Inr (), w)) of
        (Inl x, w1) \<Rightarrow> (Inl x, w1)
      | (Inr _, w1) \<Rightarrow> (load_tp sync_tp e (get_filename name) w1, w1))"
  unfolding sync_get_dataset_def get_filename_def Let_def by (rule refl)




lemma fetch_into_cache_error:
  assumes "fetch_into_cache fetch e name filename w = (Inl x, w1)"
  shows "files w1 = files (snd (fetch e (BASE_URL @ name) w))"
  using assms
  by (auto simp: fetch_into_cache_def split: prod.splits sum.splits option.splits)










subsection \<open>Failures while processing\<close>











subsection \<open>Adjacent entries\<close>

lemma series_lines:
  "scan_lines (split NEWLINE series_index) = [''lat-lon_0.bz2'', ''lat-lon_1.bz2'', ''lat-lon_2.bz2'']"
  by (simp add: series_index_def HREF_def CLOSE_def NEWLINE_def Let_def)


lemma loop_body_carries_difference:
  assumes "sync_get_dataset e current w = (Inr dataset, w1)" and "get_header e dataset = Inr header"
  shows "loop_body e (current # rest, prev_values, w) =
           (rest, grid_sub (vals dataset) prev_values,
            sync_write_data e (output_path e dataset) header
              (fillna EMPY_VALUE (grid_sub (vals dataset) prev_values)) w1)"
  using assms by (simp add: get_values_Some)

lemma output_not_cache: "output_name (output_path e dataset) \<noteq> get_filename name"
  by (simp add: output_name_def output_path_def get_filename_def CACHE_DIR_def)

lemma asynk_write_keeps_cache:
  "asynk_get_dataset e name (asynk_write_data e (output_path e dataset) header g w) =
   asynk_get_dataset e name w"
  using output_not_cache [of e dataset name]
  by (simp add: asynk_get_dataset_def load_tp_def read_dataset_def files_asynk_write_data)

lemma written_asynk_write_data:
  "written (asynk_write_data e path header g w) = written w @ [(path, header, g)]"
  by (simp add: asynk_write_data_def Let_def f_write_def open_wb_def)

lemma process_ok:
  assumes "0 < k" and "k < length names"
    and "asynk_get_dataset e (names ! (k - 1)) w = Inr p"
    and "asynk_get_dataset e (names ! k) w = Inr d"
    and "get_header e d = Inr h"
  shows "process e names (int k) w =
           (Inr (), asynk_write_data e (output_path e d) h (asynk_delta (vals d) (vals p)) w)"
proof -
  have a: "get_item names (int k) = Inr (names ! k)"
    using assms(2) by (simp add: get_item_def)
  have b: "get_item names (int k - 1) = Inr (names ! (k - 1))"
    using assms(1,2) by (simp add: get_item_def nat_diff_distrib')
  show ?thesis using assms(3-5) by (simp add: process_def a b)
qed

lemma process_each_adjacent:
  assumes "\<forall>i < length names. asynk_get_dataset e (names ! i) w = Inr (ds i)"
    and "\<forall>i < length names. get_header e (ds i) = Inr (hs i)"
    and "\<forall>k \<in> set ks. 0 < k \<and> k < length names"
  shows "\<exists>w'. process_each e names ks w = (Inr (), w') \<and>
           written w' = written w @
             map (\<lambda>k. (output_path e (ds k), hs k, asynk_delta (vals (ds k)) (vals (ds (k - 1))))) ks"
  using assms
proof (induction ks arbitrary: w)
  case Nil
  then show ?case by simp
next
  case (Cons k ks)
  let ?w1 = "asynk_write_data e (output_path e (ds k)) (hs k)
               (asynk_delta (vals (ds k)) (vals (ds (k - 1)))) w"
  from Cons.prems have k: "0 < k" "k < length names" by auto
  then have km: "k - 1 < length names" by simp
  from Cons.prems(1) k km Cons.prems(2)
  have p: "process e names (int k) w = (Inr (), ?w1)"
    by (intro process_ok) auto
  have c: "\<forall>i < length names. asynk_get_dataset e (names ! i) ?w1 = Inr (ds i)"
    using Cons.prems(1) by (simp add: asynk_write_keeps_cache)
  from Cons.IH [OF c Cons.prems(2)] Cons.prems(3)
  obtain w' where w': "process_each e names ks ?w1 = (Inr (), w')"
    "written w' = written ?w1 @
       map (\<lambda>k. (output_path e (ds k), hs k, asynk_delta (vals (ds k)) (vals (ds (k - 1))))) ks"
    by auto
  with p show ?case by (simp add: written_asynk_write_data)
qed

lemma asynk_processing_adjacent:
  assumes "\<forall>i < length names. asynk_get_dataset e (names ! i) w = Inr (ds i)"
    and "\<forall>i < length names. get_header e (ds i) = Inr (hs i)"
  shows "\<exists>w'. asynk_processing e names w = (Inr (), w') \<and>
           written w' = written w @
             map (\<lambda>k. (output_path e (ds k), hs k, asynk_delta (vals (ds k)) (vals (ds (k - 1)))))
               [1 ..< length names]"
  unfolding asynk_processing_def
  by (rule process_each_adjacent [OF assms]) auto

lemma series_header:
  "\<exists>h. get_header series_env (series_array content) = Inr h"
  by (simp add: get_header_def header_fields_def normalize_tuple_def MULT_def py_int_def
      pack_i_def series_array_def example_array_def Let_def)

lemma series_loop:
  "map_option (\<lambda>(prev_values, w). (prev_values, emitted w))
     (main_loop series_env 2 ([''lat-lon_1.bz2'', ''lat-lon_2.bz2''], [[Val 1]], series_world)) =
   Some ([[Val 4]], [(''./icon_d2/t1'', [[Val 2]]), (''./icon_d2/t2'', [[Val 4]])])"
  by (simp add: numeral_2_eq_2 sync_get_dataset_unfold series_world_def empty_world_def
      get_filename_def CACHE_DIR_def load_tp_def read_dataset_def sync_tp_def asynk_tp_def series_env_def series_array_def example_array_def
      get_header_def header_fields_def normalize_tuple_def MULT_def py_int_def pack_i_def Let_def
      get_values_Some fillna_def grid_sub_def EMPY_VALUE_def sync_write_data_def output_path_def
      get_time_def MODEL_def output_name_def open_wb_def f_write_def emitted_def)


lemma series_main:
  "map_option (\<lambda>(r, w). (r, emitted w)) (sync_main series_env 2 empty_world) =
   Some (Inr (), [(''./icon_d2/t1'', [[Val 2]]), (''./icon_d2/t2'', [[Val 4]])])"
  by (simp add: sync_main_def get_queue_of_sorces_def get_content_def get_content_loop.simps
      series_lines fetch_into_cache_def BASE_URL_def
      numeral_2_eq_2 sync_get_dataset_unfold empty_world_def
      get_filename_def CACHE_DIR_def load_tp_def read_dataset_def sync_tp_def asynk_tp_def series_env_def series_array_def example_array_def
      get_header_def header_fields_def normalize_tuple_def MULT_def py_int_def pack_i_def Let_def
      get_values_Some get_values_None fillna_def grid_sub_def EMPY_VALUE_def sync_write_data_def output_path_def
      get_time_def MODEL_def output_name_def open_wb_def f_write_def emitted_def)

lemma series_asynk:
  "(case asynk_processing series_env series_names series_world of
      (r, w) \<Rightarrow> (r, emitted w)) =
   (Inr (), [(''./icon_d2/t1'', [[Val 2]]), (''./icon_d2/t2'', [[Val 3]])])"
  by (simp add: asynk_processing_def series_names_def upt_rec process_def get_item_def
      asynk_get_dataset_def series_world_def empty_world_def
      get_filename_def CACHE_DIR_def load_tp_def read_dataset_def sync_tp_def asynk_tp_def series_env_def series_array_def example_array_def
      get_header_def header_fields_def normalize_tuple_def MULT_def py_int_def pack_i_def Let_def
      asynk_delta_def fillna_def grid_sub_def EMPY_VALUE_def asynk_write_data_def output_path_def
      get_time_def MODEL_def output_name_def open_wb_def f_write_def emitted_def)


text \<open>
  C2, on the run over the three entries with cells 1, 3 and 6. Both scripts take the
  entries in catalog order and write nothing for the first one. \<^verbatim>\<open>sync.py\<close> writes 2
  for the second entry and 4 for the third: \<^verbatim>\<open>get_values\<close> hands on the difference
  \<open>3 - 1\<close>, not the second grid, and the third output is \<open>6 - (3 - 1)\<close>.
  \<^verbatim>\<open>asynk.py\<close> writes 2 and \<open>3 = 6 - 3\<close>, the differences of adjacent grids (in general:
  \<open>asynk_processing_adjacent\<close>).
\<close>

theorem sync_run_on_series:
  "map_option (\<lambda>(r, w). (r, emitted w)) (sync_main series_env 2 empty_world) =
     Some (Inr (), [(''./icon_d2/t1'', [[Val 2]]), (''./icon_d2/t2'', [[Val 4]])]) \<and>
   (case asynk_processing series_env series_names series_world of (r, w) \<Rightarrow> (r, emitted w)) =
     (Inr (), [(''./icon_d2/t1'', [[Val 2]]), (''./icon_d2/t2'', [[Val 3]])])"
  using series_main series_asynk by blast

subsection \<open>Source discovery\<close>


















lemma scan_lines_marked: "\<forall>h \<in> set (scan_lines ls). contains ''lat-lon'' h"
  by (induction ls) (auto simp: Let_def)








end
